theory Spec2Isabelle
  imports Complex_Main
begin

section \<open>Request bodies and schema validation\<close>

text \<open>
  Both services declare their request schema as a pydantic model and let the web framework
  validate the JSON body against it before the handler runs. A JSON member that the schema
  declares is either absent from the body, present with the value null, or present with a
  value of the declared type. Values of another JSON type are outside this model: whether
  they are coerced or rejected depends on the version of the validation library.
\<close>

datatype 'a field = Missing | Null | Val 'a

datatype verr =
    FieldRequired string
  | NoneNotAllowed string
  | NotGe string int

text \<open>\<^verbatim>\<open>Field(...)\<close>: a required member of a type that does not admit null.\<close>

definition required :: "string \<Rightarrow> 'a field \<Rightarrow> verr + 'a" where
  "required name f =
     (case f of
        Missing \<Rightarrow> Inl (FieldRequired name)
      | Null \<Rightarrow> Inl (NoneNotAllowed name)
      | Val v \<Rightarrow> Inr v)"

text \<open>\<^verbatim>\<open>Field(default=d)\<close>: an optional member of a type that does not admit null.\<close>

definition with_default :: "string \<Rightarrow> 'a \<Rightarrow> 'a field \<Rightarrow> verr + 'a" where
  "with_default name d f =
     (case f of
        Missing \<Rightarrow> Inr d
      | Null \<Rightarrow> Inl (NoneNotAllowed name)
      | Val v \<Rightarrow> Inr v)"

text \<open>
  \<^verbatim>\<open>Optional[int] = Field(default=d, ge=lo)\<close>: null is a value of the type, and the bound
  constrains integers only. Python integers are unbounded.
\<close>

definition optional_ge :: "string \<Rightarrow> int \<Rightarrow> int \<Rightarrow> int field \<Rightarrow> verr + int option" where
  "optional_ge name d lo f =
     (case f of
        Missing \<Rightarrow> Inr (Some d)
      | Null \<Rightarrow> Inr None
      | Val n \<Rightarrow> if lo \<le> n then Inr (Some n) else Inl (NotGe name lo))"

text \<open>Validation reports the errors of all members, in declaration order.\<close>

definition errs :: "verr + 'a \<Rightarrow> verr list" where
  "errs r = (case r of Inl e \<Rightarrow> [e] | Inr _ \<Rightarrow> [])"

subsection \<open>The embedding service's schemas\<close>

record embed_body =
  eb_instruction :: "string field"
  eb_texts :: "string list field"
  eb_normalize :: "bool field"
  eb_batch_size :: "int field"

record EmbedRequest =
  instruction :: string
  texts :: "string list"
  normalize :: bool
  batch_size :: "int option"

record EmbedResponse =
  embeddings :: "real list list"

definition validate_embed :: "embed_body \<Rightarrow> verr list + EmbedRequest" where
  "validate_embed b =
     (let i = with_default ''instruction'' ''Represent the document for retrieval: ''
                (eb_instruction b);
          t = required ''texts'' (eb_texts b);
          n = with_default ''normalize'' True (eb_normalize b);
          s = optional_ge ''batch_size'' 32 1 (eb_batch_size b)
      in case (i, t, n, s) of
           (Inr i', Inr t', Inr n', Inr s') \<Rightarrow>
             Inr \<lparr>instruction = i', texts = t', normalize = n',
                  EmbedRequest.batch_size = s'\<rparr>
         | _ \<Rightarrow> Inl (errs i @ errs t @ errs n @ errs s))"

subsection \<open>The reranking service's schemas\<close>

record rerank_body =
  rb_query :: "string field"
  rb_candidates :: "string list field"
  rb_batch_size :: "int field"

record RerankRequest =
  query :: string
  candidates :: "string list"
  batch_size :: "int option"

record RerankResponse =
  scores :: "real list"

definition validate_rerank :: "rerank_body \<Rightarrow> verr list + RerankRequest" where
  "validate_rerank b =
     (let q = required ''query'' (rb_query b);
          c = required ''candidates'' (rb_candidates b);
          s = optional_ge ''batch_size'' 32 1 (rb_batch_size b)
      in case (q, c, s) of
           (Inr q', Inr c', Inr s') \<Rightarrow>
             Inr \<lparr>query = q', candidates = c', RerankRequest.batch_size = s'\<rparr>
         | _ \<Rightarrow> Inl (errs q @ errs c @ errs s))"

section \<open>The process: device, loaded model, and the calls made to the model\<close>

text \<open>
  Each service is one process. At import time it chooses the device and loads the model
  from a fixed path; both are module-level names that no handler assigns. The model itself
  belongs to the machine-learning library and is a parameter here. The third component is
  not a variable of the program: it is the trace of the program's calls into the library,
  oldest first, each with its arguments, kept so that "no inference was performed" and
  "this value was passed to the model" are statements about the process.
\<close>

record ('m, 'c) proc =
  device :: string
  model :: 'm
  calls :: "'c list"

definition select_device :: "bool \<Rightarrow> string" where
  "select_device cuda_is_available = (if cuda_is_available then ''cuda'' else ''cpu'')"

text \<open>
  Loading can fail (the constructor raises), and then the process never serves a request.
\<close>

definition startup ::
  "string \<Rightarrow> bool \<Rightarrow> (string \<Rightarrow> string \<Rightarrow> 'm option) \<Rightarrow> ('m, 'c) proc option" where
  "startup path cuda_is_available load =
     (let dev = select_device cuda_is_available
      in case load path dev of
           None \<Rightarrow> None
         | Some m \<Rightarrow> Some \<lparr>device = dev, model = m, calls = []\<rparr>)"

text \<open>
  What a client receives: the handler's value, a client error from schema validation, or a
  server error when the handler raised.
\<close>

datatype 'a reply = Ok200 'a | ClientError "verr list" | ServerError

definition healthz :: "('m, 'c) proc \<Rightarrow> (string \<times> string) list" where
  "healthz p = [(''status'', ''ok''), (''device'', device p)]"

text \<open>Serving a sequence of requests, each on the process the previous one left.\<close>

fun run :: "('st \<Rightarrow> 'rq \<Rightarrow> 'rp \<times> 'st) \<Rightarrow> 'st \<Rightarrow> 'rq list \<Rightarrow> 'rp list \<times> 'st" where
  "run serve p [] = ([], p)"
| "run serve p (r # rs) =
     (let (a, p') = serve p r; (as, p'') = run serve p' rs in (a # as, p''))"

subsection \<open>The embedding service\<close>

text \<open>
  \<^verbatim>\<open>model.encode(pairs, convert_to_numpy=True, normalize_embeddings=..., batch_size=...,
  show_progress_bar=False).tolist()\<close>: the library receives the pair list, the
  normalisation flag and the batch size, and either returns the rows of a matrix or raises.
\<close>

type_synonym encode_call = "string list list \<times> bool \<times> int option"
type_synonym encoder = "string list list \<Rightarrow> bool \<Rightarrow> int option \<Rightarrow> real list list option"
type_synonym instructor_proc = "(encoder, encode_call) proc"

definition instructor_startup ::
  "bool \<Rightarrow> (string \<Rightarrow> string \<Rightarrow> encoder option) \<Rightarrow> instructor_proc option" where
  "instructor_startup = startup ''/models/hkunlp__instructor-xl''"

definition embed :: "instructor_proc \<Rightarrow> EmbedRequest \<Rightarrow> EmbedResponse reply \<times> instructor_proc" where
  "embed p req =
     (let pairs = map (\<lambda>t. [instruction req, t]) (texts req);
          p' = p\<lparr>calls := calls p @ [(pairs, normalize req, EmbedRequest.batch_size req)]\<rparr>
      in case model p pairs (normalize req) (EmbedRequest.batch_size req) of
           None \<Rightarrow> (ServerError, p')
         | Some embs \<Rightarrow> (Ok200 \<lparr>embeddings = embs\<rparr>, p'))"

definition post_embed :: "instructor_proc \<Rightarrow> embed_body \<Rightarrow> EmbedResponse reply \<times> instructor_proc" where
  "post_embed p body =
     (case validate_embed body of
        Inl es \<Rightarrow> (ClientError es, p)
      | Inr req \<Rightarrow> embed p req)"

datatype instructor_request = GetHealthzI | PostEmbed embed_body

datatype instructor_answer =
    HealthI "(string \<times> string) list"
  | Embedded "EmbedResponse reply"

fun instructor_serve ::
  "instructor_proc \<Rightarrow> instructor_request \<Rightarrow> instructor_answer \<times> instructor_proc" where
  "instructor_serve p GetHealthzI = (HealthI (healthz p), p)"
| "instructor_serve p (PostEmbed body) = (let (r, p') = post_embed p body in (Embedded r, p'))"

subsection \<open>The reranking service\<close>

text \<open>
  \<^verbatim>\<open>model.predict(pairs, batch_size=...).tolist()\<close>: the library receives the pair list and
  the batch size, and either returns one array of scores or raises.
\<close>

type_synonym predict_call = "(string \<times> string) list \<times> int option"
type_synonym predictor = "(string \<times> string) list \<Rightarrow> int option \<Rightarrow> real list option"
type_synonym reranker_proc = "(predictor, predict_call) proc"

definition reranker_startup ::
  "bool \<Rightarrow> (string \<Rightarrow> string \<Rightarrow> predictor option) \<Rightarrow> reranker_proc option" where
  "reranker_startup = startup ''/models/BAAI__bge-reranker-large''"

definition rerank :: "reranker_proc \<Rightarrow> RerankRequest \<Rightarrow> RerankResponse reply \<times> reranker_proc" where
  "rerank p req =
     (let pairs = map (\<lambda>c. (query req, c)) (candidates req);
          p' = p\<lparr>calls := calls p @ [(pairs, RerankRequest.batch_size req)]\<rparr>
      in case model p pairs (RerankRequest.batch_size req) of
           None \<Rightarrow> (ServerError, p')
         | Some scs \<Rightarrow> (Ok200 \<lparr>scores = scs\<rparr>, p'))"

definition post_rerank :: "reranker_proc \<Rightarrow> rerank_body \<Rightarrow> RerankResponse reply \<times> reranker_proc" where
  "post_rerank p body =
     (case validate_rerank body of
        Inl es \<Rightarrow> (ClientError es, p)
      | Inr req \<Rightarrow> rerank p req)"

datatype reranker_request = GetHealthzR | PostRerank rerank_body

datatype reranker_answer =
    HealthR "(string \<times> string) list"
  | Reranked "RerankResponse reply"

fun reranker_serve ::
  "reranker_proc \<Rightarrow> reranker_request \<Rightarrow> reranker_answer \<times> reranker_proc" where
  "reranker_serve p GetHealthzR = (HealthR (healthz p), p)"
| "reranker_serve p (PostRerank body) = (let (r, p') = post_rerank p body in (Reranked r, p'))"

subsection \<open>The contract of the library calls\<close>

text \<open>
  The library documents that encoding returns one row per input, in the order of the
  inputs. Row \<open>i\<close> is then a function of input \<open>i\<close> and of the arguments of the call.
\<close>

definition encodes_rowwise :: "encoder \<Rightarrow> (bool \<Rightarrow> int option \<Rightarrow> string list \<Rightarrow> real list) \<Rightarrow> bool" where
  "encodes_rowwise enc g \<longleftrightarrow>
     (\<forall>ps n b rows. enc ps n b = Some rows \<longrightarrow> rows = map (g n b) ps)"

definition predicts_rowwise :: "predictor \<Rightarrow> (int option \<Rightarrow> string \<times> string \<Rightarrow> real) \<Rightarrow> bool" where
  "predicts_rowwise prd g \<longleftrightarrow>
     (\<forall>ps b scs. prd ps b = Some scs \<longrightarrow> scs = map (g b) ps)"

text \<open>The embedding model has one output dimension.\<close>

definition fixed_dimension :: "(bool \<Rightarrow> int option \<Rightarrow> string list \<Rightarrow> real list) \<Rightarrow> nat \<Rightarrow> bool" where
  "fixed_dimension g d \<longleftrightarrow> (\<forall>n b p. length (g n b p) = d)"

subsection \<open>A stand-in for the library, for concrete runs\<close>

text \<open>
  A toy model with two output dimensions. Like a batching loop whose step must be an
  integer, it raises when the batch size is null.
\<close>

definition toy_row :: "bool \<Rightarrow> int option \<Rightarrow> string list \<Rightarrow> real list" where
  "toy_row n b p = [real (length (concat p)), if n then 1 else 0]"

definition toy_encoder :: encoder where
  "toy_encoder ps n b = (case b of None \<Rightarrow> None | Some k \<Rightarrow> Some (map (toy_row n b) ps))"

definition toy_score :: "int option \<Rightarrow> string \<times> string \<Rightarrow> real" where
  "toy_score b qc = real (length (fst qc)) + real (length (snd qc))"

definition toy_predictor :: predictor where
  "toy_predictor ps b = (case b of None \<Rightarrow> None | Some k \<Rightarrow> Some (map (toy_score b) ps))"

definition toy_instructor :: instructor_proc where
  "toy_instructor = \<lparr>device = ''cpu'', model = toy_encoder, calls = []\<rparr>"

definition toy_reranker :: reranker_proc where
  "toy_reranker = \<lparr>device = ''cpu'', model = toy_predictor, calls = []\<rparr>"

definition embed_ab :: embed_body where
  "embed_ab = \<lparr>eb_instruction = Missing, eb_texts = Val [''a'', ''b''],
                eb_normalize = Missing, eb_batch_size = Missing\<rparr>"

definition rerank_xyz :: rerank_body where
  "rerank_xyz = \<lparr>rb_query = Val ''q'', rb_candidates = Val [''x'', ''y'', ''z''],
                  rb_batch_size = Missing\<rparr>"

section \<open>Schema validation\<close>

text \<open>Exactly which bodies validation accepts, and the request object it then builds.\<close>

lemma validate_embed_cases:
  "validate_embed b = Inr req \<longleftrightarrow>
     (\<exists>ts. eb_texts b = Val ts \<and> eb_instruction b \<noteq> Null \<and> eb_normalize b \<noteq> Null \<and>
        (\<forall>n. eb_batch_size b = Val n \<longrightarrow> 1 \<le> n) \<and>
        req = \<lparr>instruction = (case eb_instruction b of Val i \<Rightarrow> i | _ \<Rightarrow> ''Represent the document for retrieval: ''),
               texts = ts,
               normalize = (case eb_normalize b of Val n \<Rightarrow> n | _ \<Rightarrow> True),
               EmbedRequest.batch_size = (case eb_batch_size b of Missing \<Rightarrow> Some 32 | Null \<Rightarrow> None | Val n \<Rightarrow> Some n)\<rparr>)"
  unfolding validate_embed_def Let_def with_default_def required_def optional_ge_def errs_def
  by (auto split: field.splits)

lemma validate_rerank_cases:
  "validate_rerank b = Inr req \<longleftrightarrow>
     (\<exists>q cs. rb_query b = Val q \<and> rb_candidates b = Val cs \<and>
        (\<forall>n. rb_batch_size b = Val n \<longrightarrow> 1 \<le> n) \<and>
        req = \<lparr>query = q, candidates = cs,
               RerankRequest.batch_size = (case rb_batch_size b of Missing \<Rightarrow> Some 32 | Null \<Rightarrow> None | Val n \<Rightarrow> Some n)\<rparr>)"
  unfolding validate_rerank_def Let_def required_def optional_ge_def errs_def
  by (auto split: field.splits)

lemma validate_embed_rejects:
  "eb_texts b = Missing \<or> (\<exists>n. eb_batch_size b = Val n \<and> n < 1) \<Longrightarrow>
     \<exists>es. es \<noteq> [] \<and> validate_embed b = Inl es"
  unfolding validate_embed_def Let_def with_default_def required_def optional_ge_def errs_def
  by (auto split: field.splits)

lemma validate_rerank_rejects:
  "rb_query b = Missing \<or> rb_candidates b = Missing \<or> (\<exists>n. rb_batch_size b = Val n \<and> n < 1) \<Longrightarrow>
     \<exists>es. es \<noteq> [] \<and> validate_rerank b = Inl es"
  unfolding validate_rerank_def Let_def required_def optional_ge_def errs_def
  by (auto split: field.splits)

lemma calls_embed:
  "calls (snd (embed p req))
     = calls p @ [(map (\<lambda>t. [instruction req, t]) (texts req), normalize req,
                   EmbedRequest.batch_size req)]"
  by (simp add: embed_def Let_def split: option.splits)

lemma calls_rerank:
  "calls (snd (rerank p req))
     = calls p @ [(map (\<lambda>c. (query req, c)) (candidates req), RerankRequest.batch_size req)]"
  by (simp add: rerank_def Let_def split: option.splits)

text \<open>
  Claim C4. A body that lacks a required member (\<open>texts\<close> for the embedding service;
  \<open>query\<close> or \<open>candidates\<close> for the reranking service), or whose \<open>batch_size\<close> is an
  integer below 1, is answered with a client error carrying at least one validation error.
  The process is returned as it was: no call to the model has been recorded, whatever the
  model is, and there is no response value.
\<close>

theorem invalid_request_rejected_before_inference:
  "(eb_texts b = Missing \<or> (\<exists>n. eb_batch_size b = Val n \<and> n < 1) \<longrightarrow>
      (\<exists>es. es \<noteq> [] \<and> post_embed p b = (ClientError es, p)))
   \<and> (rb_query c = Missing \<or> rb_candidates c = Missing \<or> (\<exists>n. rb_batch_size c = Val n \<and> n < 1) \<longrightarrow>
      (\<exists>es. es \<noteq> [] \<and> post_rerank q c = (ClientError es, q)))"
proof (intro conjI impI)
  assume "eb_texts b = Missing \<or> (\<exists>n. eb_batch_size b = Val n \<and> n < 1)"
  then obtain es where "es \<noteq> []" "validate_embed b = Inl es"
    using validate_embed_rejects by blast
  then show "\<exists>es. es \<noteq> [] \<and> post_embed p b = (ClientError es, p)"
    by (simp add: post_embed_def)
next
  assume "rb_query c = Missing \<or> rb_candidates c = Missing \<or> (\<exists>n. rb_batch_size c = Val n \<and> n < 1)"
  then obtain es where "es \<noteq> []" "validate_rerank c = Inl es"
    using validate_rerank_rejects by blast
  then show "\<exists>es. es \<noteq> [] \<and> post_rerank q c = (ClientError es, q)"
    by (simp add: post_rerank_def)
qed

theorem invalid_request_rejected_before_inference_witness:
  "eb_batch_size (embed_ab\<lparr>eb_batch_size := Val 0\<rparr>) = Val 0 \<and> (0::int) < 1
   \<and> (\<exists>es. es \<noteq> [] \<and> post_embed toy_instructor (embed_ab\<lparr>eb_batch_size := Val 0\<rparr>)
                          = (ClientError es, toy_instructor))
   \<and> rb_query (rerank_xyz\<lparr>rb_query := Missing\<rparr>) = Missing
   \<and> (\<exists>es. es \<noteq> [] \<and> post_rerank toy_reranker (rerank_xyz\<lparr>rb_query := Missing\<rparr>)
                          = (ClientError es, toy_reranker))"
proof -
  have e: "eb_batch_size (embed_ab\<lparr>eb_batch_size := Val 0\<rparr>) = Val 0 \<and> (0::int) < 1"
    by simp
  have r: "rb_query (rerank_xyz\<lparr>rb_query := Missing\<rparr>) = Missing"
    by simp
  from invalid_request_rejected_before_inference
    [of "embed_ab\<lparr>eb_batch_size := Val 0\<rparr>" toy_instructor
        "rerank_xyz\<lparr>rb_query := Missing\<rparr>" toy_reranker] e r
  show ?thesis by blast
qed

text \<open>
  Claim C5. An embedding request that omits its optional members is accepted with
  \<open>instruction\<close> the retrieval instruction, \<open>normalize\<close> true and \<open>batch_size\<close> 32, and
  each omitted member of an accepted body takes its default whatever the others are; a
  rerank request that omits \<open>batch_size\<close> gets 32.
\<close>

theorem defaults_for_omitted_members:
  "validate_embed \<lparr>eb_instruction = Missing, eb_texts = Val ts, eb_normalize = Missing,
                   eb_batch_size = Missing\<rparr>
     = Inr \<lparr>instruction = ''Represent the document for retrieval: '', texts = ts,
            normalize = True, EmbedRequest.batch_size = Some 32\<rparr>
   \<and> (validate_embed b = Inr req \<longrightarrow>
        (eb_instruction b = Missing \<longrightarrow> instruction req = ''Represent the document for retrieval: '')
      \<and> (eb_normalize b = Missing \<longrightarrow> normalize req = True)
      \<and> (eb_batch_size b = Missing \<longrightarrow> EmbedRequest.batch_size req = Some 32))
   \<and> validate_rerank \<lparr>rb_query = Val q, rb_candidates = Val cs, rb_batch_size = Missing\<rparr>
     = Inr \<lparr>query = q, candidates = cs, RerankRequest.batch_size = Some 32\<rparr>
   \<and> (validate_rerank c = Inr rreq \<longrightarrow> rb_batch_size c = Missing \<longrightarrow>
        RerankRequest.batch_size rreq = Some 32)"
proof (intro conjI)
  show "validate_embed \<lparr>eb_instruction = Missing, eb_texts = Val ts, eb_normalize = Missing,
                   eb_batch_size = Missing\<rparr>
     = Inr \<lparr>instruction = ''Represent the document for retrieval: '', texts = ts,
            normalize = True, EmbedRequest.batch_size = Some 32\<rparr>"
    by (simp add: validate_embed_cases)
  show "validate_embed b = Inr req \<longrightarrow>
        (eb_instruction b = Missing \<longrightarrow> instruction req = ''Represent the document for retrieval: '')
      \<and> (eb_normalize b = Missing \<longrightarrow> normalize req = True)
      \<and> (eb_batch_size b = Missing \<longrightarrow> EmbedRequest.batch_size req = Some 32)"
    by (auto simp: validate_embed_cases)
  show "validate_rerank \<lparr>rb_query = Val q, rb_candidates = Val cs, rb_batch_size = Missing\<rparr>
     = Inr \<lparr>query = q, candidates = cs, RerankRequest.batch_size = Some 32\<rparr>"
    by (simp add: validate_rerank_cases)
  show "validate_rerank c = Inr rreq \<longrightarrow> rb_batch_size c = Missing \<longrightarrow>
        RerankRequest.batch_size rreq = Some 32"
    by (auto simp: validate_rerank_cases)
qed

theorem defaults_for_omitted_members_witness:
  "validate_embed embed_ab
     = Inr \<lparr>instruction = ''Represent the document for retrieval: '', texts = [''a'', ''b''],
            normalize = True, EmbedRequest.batch_size = Some 32\<rparr>
   \<and> eb_instruction embed_ab = Missing \<and> eb_normalize embed_ab = Missing
   \<and> eb_batch_size embed_ab = Missing
   \<and> validate_rerank rerank_xyz
     = Inr \<lparr>query = ''q'', candidates = [''x'', ''y'', ''z''],
            RerankRequest.batch_size = Some 32\<rparr>
   \<and> rb_batch_size rerank_xyz = Missing"
  using defaults_for_omitted_members
    [of "[''a'', ''b'']" embed_ab
        "\<lparr>instruction = ''Represent the document for retrieval: '', texts = [''a'', ''b''],
          normalize = True, EmbedRequest.batch_size = Some 32\<rparr>"
        "''q''" "[''x'', ''y'', ''z'']" rerank_xyz
        "\<lparr>query = ''q'', candidates = [''x'', ''y'', ''z''],
          RerankRequest.batch_size = Some 32\<rparr>"]
  by (simp add: embed_ab_def rerank_xyz_def)



section \<open>The handlers\<close>

lemma fst_embed:
  "fst (embed p req)
     = (case model p (map (\<lambda>t. [instruction req, t]) (texts req)) (normalize req)
               (EmbedRequest.batch_size req) of
          None \<Rightarrow> ServerError
        | Some rows \<Rightarrow> Ok200 \<lparr>embeddings = rows\<rparr>)"
  by (simp add: embed_def Let_def split: option.splits)

lemma fst_rerank:
  "fst (rerank p req)
     = (case model p (map (\<lambda>c. (query req, c)) (candidates req))
               (RerankRequest.batch_size req) of
          None \<Rightarrow> ServerError
        | Some scs \<Rightarrow> Ok200 \<lparr>scores = scs\<rparr>)"
  by (simp add: rerank_def Let_def split: option.splits)

lemma embed_ok_rows:
  assumes "fst (embed p req) = Ok200 resp"
  shows "model p (map (\<lambda>t. [instruction req, t]) (texts req)) (normalize req)
           (EmbedRequest.batch_size req) = Some (embeddings resp)"
  using assms by (auto simp: fst_embed split: option.splits)

lemma rerank_ok_scores:
  assumes "fst (rerank p req) = Ok200 resp"
  shows "model p (map (\<lambda>c. (query req, c)) (candidates req))
           (RerankRequest.batch_size req) = Some (scores resp)"
  using assms by (auto simp: fst_rerank split: option.splits)

lemma toy_encoder_rowwise: "encodes_rowwise toy_encoder toy_row"
  by (auto simp: encodes_rowwise_def toy_encoder_def split: option.splits)

lemma toy_predictor_rowwise: "predicts_rowwise toy_predictor toy_score"
  by (auto simp: predicts_rowwise_def toy_predictor_def split: option.splits)

lemma toy_row_dimension: "fixed_dimension toy_row 2"
  by (simp add: fixed_dimension_def toy_row_def)

lemma validate_embed_ab:
  "validate_embed embed_ab
     = Inr \<lparr>instruction = ''Represent the document for retrieval: '', texts = [''a'', ''b''],
            normalize = True, EmbedRequest.batch_size = Some 32\<rparr>"
  by (simp add: validate_embed_cases embed_ab_def)

lemma validate_rerank_xyz:
  "validate_rerank rerank_xyz
     = Inr \<lparr>query = ''q'', candidates = [''x'', ''y'', ''z''],
            RerankRequest.batch_size = Some 32\<rparr>"
  by (simp add: validate_rerank_cases rerank_xyz_def)

text \<open>
  Claim C2. For a body that validates to the request \<open>req\<close>, the embed endpoint builds one
  pair \<open>[instruction, t]\<close> per element \<open>t\<close> of \<open>texts\<close>, at the same index; it calls the
  model once, on that pair list, with \<open>normalize\<close> as the normalisation flag and with the
  request's batch size; and its answer is the rows the model returned, unchanged, or a
  server error when the model raised.
\<close>

theorem embed_pairs_instruction_with_each_text:
  assumes "validate_embed b = Inr req"
  shows "\<exists>pairs. length pairs = length (texts req)
           \<and> (\<forall>i<length (texts req). pairs ! i = [instruction req, texts req ! i])
           \<and> calls (snd (post_embed p b))
               = calls p @ [(pairs, normalize req, EmbedRequest.batch_size req)]
           \<and> fst (post_embed p b)
               = (case model p pairs (normalize req) (EmbedRequest.batch_size req) of
                    None \<Rightarrow> ServerError
                  | Some rows \<Rightarrow> Ok200 \<lparr>embeddings = rows\<rparr>)"
proof (intro exI conjI)
  let ?pairs = "map (\<lambda>t. [instruction req, t]) (texts req)"
  show "length ?pairs = length (texts req)" by simp
  show "\<forall>i<length (texts req). ?pairs ! i = [instruction req, texts req ! i]" by simp
  show "calls (snd (post_embed p b))
          = calls p @ [(?pairs, normalize req, EmbedRequest.batch_size req)]"
    using assms by (simp add: post_embed_def calls_embed)
  show "fst (post_embed p b)
          = (case model p ?pairs (normalize req) (EmbedRequest.batch_size req) of
               None \<Rightarrow> ServerError
             | Some rows \<Rightarrow> Ok200 \<lparr>embeddings = rows\<rparr>)"
    using assms by (simp add: post_embed_def fst_embed)
qed

text \<open>
  Claim C3. For a body that validates to the request \<open>req\<close>, the rerank endpoint builds the
  pair \<open>(query, c)\<close> for each candidate \<open>c\<close>, at the same index; it calls the cross-encoder
  once, on that pair list, with the request's batch size; and its answer is the scores the
  model returned, unchanged, or a server error when the model raised. With a cross-encoder
  that scores row by row, score \<open>i\<close> of a response is the score of \<open>(query, candidates[i])\<close>.
\<close>

theorem rerank_scores_query_candidate_pairs:
  assumes "validate_rerank c = Inr req"
  shows "\<exists>pairs. length pairs = length (candidates req)
           \<and> (\<forall>i<length (candidates req). pairs ! i = (query req, candidates req ! i))
           \<and> calls (snd (post_rerank q c)) = calls q @ [(pairs, RerankRequest.batch_size req)]
           \<and> fst (post_rerank q c)
               = (case model q pairs (RerankRequest.batch_size req) of
                    None \<Rightarrow> ServerError
                  | Some scs \<Rightarrow> Ok200 \<lparr>scores = scs\<rparr>)
           \<and> (\<forall>h resp. predicts_rowwise (model q) h \<longrightarrow> fst (post_rerank q c) = Ok200 resp \<longrightarrow>
                 length (scores resp) = length (candidates req)
               \<and> (\<forall>i<length (candidates req).
                     scores resp ! i
                       = h (RerankRequest.batch_size req) (query req, candidates req ! i)))"
proof (intro exI conjI allI impI)
  let ?pairs = "map (\<lambda>c. (query req, c)) (candidates req)"
  show "length ?pairs = length (candidates req)" by simp
  show "\<And>i. i < length (candidates req) \<Longrightarrow> ?pairs ! i = (query req, candidates req ! i)"
    by simp
  show "calls (snd (post_rerank q c)) = calls q @ [(?pairs, RerankRequest.batch_size req)]"
    using assms by (simp add: post_rerank_def calls_rerank)
  show "fst (post_rerank q c)
          = (case model q ?pairs (RerankRequest.batch_size req) of
               None \<Rightarrow> ServerError
             | Some scs \<Rightarrow> Ok200 \<lparr>scores = scs\<rparr>)"
    using assms by (simp add: post_rerank_def fst_rerank)
next
  fix h resp
  assume rw: "predicts_rowwise (model q) h" and ok: "fst (post_rerank q c) = Ok200 resp"
  from ok assms have "fst (rerank q req) = Ok200 resp"
    by (simp add: post_rerank_def)
  then have "model q (map (\<lambda>c. (query req, c)) (candidates req))
               (RerankRequest.batch_size req) = Some (scores resp)"
    by (rule rerank_ok_scores)
  with rw have sc: "scores resp = map (h (RerankRequest.batch_size req))
                                    (map (\<lambda>c. (query req, c)) (candidates req))"
    unfolding predicts_rowwise_def by blast
  show "length (scores resp) = length (candidates req)"
    by (simp add: sc)
  fix i
  assume "i < length (candidates req)"
  then show "scores resp ! i = h (RerankRequest.batch_size req) (query req, candidates req ! i)"
    by (simp add: sc)
qed

lemma two_by_index:
  assumes "length xs = 2" "xs ! 0 = a" "xs ! 1 = b"
  shows "xs = [a, b]"
  using assms by (cases xs; cases "tl xs") auto

lemma three_by_index:
  assumes "length xs = 3" "xs ! 0 = a" "xs ! 1 = b" "xs ! 2 = c"
  shows "xs = [a, b, c]"
proof -
  obtain x y z where "xs = [x, y, z]"
    using assms(1) by (auto simp: numeral_3_eq_3 length_Suc_conv)
  with assms show ?thesis by simp
qed

theorem embed_pairs_instruction_with_each_text_witness:
  "validate_embed embed_ab
     = Inr \<lparr>instruction = ''Represent the document for retrieval: '', texts = [''a'', ''b''],
            normalize = True, EmbedRequest.batch_size = Some 32\<rparr>
   \<and> calls (snd (post_embed toy_instructor embed_ab))
       = [([[''Represent the document for retrieval: '', ''a''],
            [''Represent the document for retrieval: '', ''b'']], True, Some 32)]
   \<and> fst (post_embed toy_instructor embed_ab)
       = Ok200 \<lparr>embeddings = [[39, 1], [39, 1]]\<rparr>"
proof -
  let ?I = "''Represent the document for retrieval: ''"
  let ?R = "\<lparr>instruction = ?I, texts = [''a'', ''b''], normalize = True,
             EmbedRequest.batch_size = Some 32\<rparr>"
  from embed_pairs_instruction_with_each_text [OF validate_embed_ab, of toy_instructor]
  obtain pairs where l: "length pairs = length (texts ?R)"
    and n: "\<forall>i<length (texts ?R). pairs ! i = [instruction ?R, texts ?R ! i]"
    and c: "calls (snd (post_embed toy_instructor embed_ab))
              = calls toy_instructor @ [(pairs, normalize ?R, EmbedRequest.batch_size ?R)]"
    and f: "fst (post_embed toy_instructor embed_ab)
              = (case model toy_instructor pairs (normalize ?R)
                        (EmbedRequest.batch_size ?R) of
                   None \<Rightarrow> ServerError
                 | Some rows \<Rightarrow> Ok200 \<lparr>embeddings = rows\<rparr>)"
    by blast
  have "length pairs = 2" "pairs ! 0 = [?I, ''a'']" "pairs ! 1 = [?I, ''b'']"
    using l n by auto
  then have p: "pairs = [[?I, ''a''], [?I, ''b'']]"
    by (rule two_by_index)
  show ?thesis
    using c f unfolding p
    by (simp add: validate_embed_ab toy_instructor_def toy_encoder_def toy_row_def)
qed

theorem rerank_scores_query_candidate_pairs_witness:
  "validate_rerank rerank_xyz
     = Inr \<lparr>query = ''q'', candidates = [''x'', ''y'', ''z''],
            RerankRequest.batch_size = Some 32\<rparr>
   \<and> predicts_rowwise (model toy_reranker) toy_score
   \<and> calls (snd (post_rerank toy_reranker rerank_xyz))
       = [([(''q'', ''x''), (''q'', ''y''), (''q'', ''z'')], Some 32)]
   \<and> fst (post_rerank toy_reranker rerank_xyz) = Ok200 \<lparr>scores = [2, 2, 2]\<rparr>"
proof -
  let ?R = "\<lparr>query = ''q'', candidates = [''x'', ''y'', ''z''],
             RerankRequest.batch_size = Some 32\<rparr>"
  have rw: "predicts_rowwise (model toy_reranker) toy_score"
    by (simp add: toy_reranker_def toy_predictor_rowwise)
  from rerank_scores_query_candidate_pairs [OF validate_rerank_xyz, of toy_reranker]
  obtain pairs where l: "length pairs = length (candidates ?R)"
    and n: "\<forall>i<length (candidates ?R). pairs ! i = (query ?R, candidates ?R ! i)"
    and c: "calls (snd (post_rerank toy_reranker rerank_xyz))
              = calls toy_reranker @ [(pairs, RerankRequest.batch_size ?R)]"
    and f: "fst (post_rerank toy_reranker rerank_xyz)
              = (case model toy_reranker pairs (RerankRequest.batch_size ?R) of
                   None \<Rightarrow> ServerError
                 | Some scs \<Rightarrow> Ok200 \<lparr>scores = scs\<rparr>)"
    by blast
  have "length pairs = 3" "pairs ! 0 = (''q'', ''x'')" "pairs ! 1 = (''q'', ''y'')"
    "pairs ! 2 = (''q'', ''z'')"
    using l n by auto
  then have p: "pairs = [(''q'', ''x''), (''q'', ''y''), (''q'', ''z'')]"
    by (rule three_by_index)
  show ?thesis
    using c f rw unfolding p
    by (simp add: validate_rerank_xyz toy_reranker_def toy_predictor_def toy_score_def)
qed

section \<open>Shape of the responses\<close>

lemma embed_rowwise_rows:
  assumes "encodes_rowwise (model p) g" and "validate_embed b = Inr req"
    and "fst (post_embed p b) = Ok200 resp"
  shows "embeddings resp
           = map (\<lambda>t. g (normalize req) (EmbedRequest.batch_size req) [instruction req, t])
               (texts req)"
proof -
  from assms(2,3) have "fst (embed p req) = Ok200 resp"
    by (simp add: post_embed_def)
  then have "model p (map (\<lambda>t. [instruction req, t]) (texts req)) (normalize req)
               (EmbedRequest.batch_size req) = Some (embeddings resp)"
    by (rule embed_ok_rows)
  with assms(1) have "embeddings resp
      = map (g (normalize req) (EmbedRequest.batch_size req))
          (map (\<lambda>t. [instruction req, t]) (texts req))"
    unfolding encodes_rowwise_def by blast
  then show ?thesis by (simp add: comp_def)
qed

lemma rerank_rowwise_scores:
  assumes "predicts_rowwise (model q) h" and "validate_rerank c = Inr req"
    and "fst (post_rerank q c) = Ok200 resp"
  shows "scores resp
           = map (\<lambda>c. h (RerankRequest.batch_size req) (query req, c)) (candidates req)"
proof -
  from assms(2,3) have "fst (rerank q req) = Ok200 resp"
    by (simp add: post_rerank_def)
  then have "model q (map (\<lambda>c. (query req, c)) (candidates req))
               (RerankRequest.batch_size req) = Some (scores resp)"
    by (rule rerank_ok_scores)
  with assms(1) have "scores resp
      = map (h (RerankRequest.batch_size req)) (map (\<lambda>c. (query req, c)) (candidates req))"
    unfolding predicts_rowwise_def by blast
  then show ?thesis by (simp add: comp_def)
qed

text \<open>
  Claim C1. With a model that returns one row per input in input order, every response to a
  valid embed request has exactly one embedding per element of \<open>texts\<close>, and embedding \<open>i\<close>
  is the row of the pair built from \<open>texts[i]\<close>; every response to a valid rerank request
  has exactly one score per element of \<open>candidates\<close>, and score \<open>i\<close> is the score of the pair
  built from \<open>candidates[i]\<close>.
\<close>

theorem response_length_and_order:
  "(encodes_rowwise (model p) g \<longrightarrow> validate_embed b = Inr req \<longrightarrow>
      fst (post_embed p b) = Ok200 resp \<longrightarrow>
        length (embeddings resp) = length (texts req)
      \<and> (\<forall>i<length (texts req).
            embeddings resp ! i
              = g (normalize req) (EmbedRequest.batch_size req) [instruction req, texts req ! i]))
   \<and> (predicts_rowwise (model q) h \<longrightarrow> validate_rerank c = Inr rreq \<longrightarrow>
      fst (post_rerank q c) = Ok200 rresp \<longrightarrow>
        length (scores rresp) = length (candidates rreq)
      \<and> (\<forall>i<length (candidates rreq).
            scores rresp ! i
              = h (RerankRequest.batch_size rreq) (query rreq, candidates rreq ! i)))"
proof (intro conjI impI)
  assume "encodes_rowwise (model p) g" "validate_embed b = Inr req"
    "fst (post_embed p b) = Ok200 resp"
  then have e: "embeddings resp
      = map (\<lambda>t. g (normalize req) (EmbedRequest.batch_size req) [instruction req, t])
          (texts req)"
    by (rule embed_rowwise_rows)
  show "length (embeddings resp) = length (texts req)"
    by (simp add: e)
  show "\<forall>i<length (texts req).
          embeddings resp ! i
            = g (normalize req) (EmbedRequest.batch_size req) [instruction req, texts req ! i]"
    by (simp add: e)
next
  assume "predicts_rowwise (model q) h" "validate_rerank c = Inr rreq"
    "fst (post_rerank q c) = Ok200 rresp"
  then have s: "scores rresp
      = map (\<lambda>c. h (RerankRequest.batch_size rreq) (query rreq, c)) (candidates rreq)"
    by (rule rerank_rowwise_scores)
  show "length (scores rresp) = length (candidates rreq)"
    by (simp add: s)
  show "\<forall>i<length (candidates rreq).
          scores rresp ! i = h (RerankRequest.batch_size rreq) (query rreq, candidates rreq ! i)"
    by (simp add: s)
qed

lemma post_embed_ab:
  "fst (post_embed toy_instructor embed_ab) = Ok200 \<lparr>embeddings = [[39, 1], [39, 1]]\<rparr>"
  by (simp add: post_embed_def validate_embed_ab fst_embed toy_instructor_def
      toy_encoder_def toy_row_def)

lemma post_rerank_xyz:
  "fst (post_rerank toy_reranker rerank_xyz) = Ok200 \<lparr>scores = [2, 2, 2]\<rparr>"
  by (simp add: post_rerank_def validate_rerank_xyz fst_rerank toy_reranker_def
      toy_predictor_def toy_score_def)

theorem response_length_and_order_witness:
  "encodes_rowwise (model toy_instructor) toy_row
   \<and> validate_embed embed_ab
       = Inr \<lparr>instruction = ''Represent the document for retrieval: '',
              texts = [''a'', ''b''], normalize = True, EmbedRequest.batch_size = Some 32\<rparr>
   \<and> fst (post_embed toy_instructor embed_ab) = Ok200 \<lparr>embeddings = [[39, 1], [39, 1]]\<rparr>
   \<and> length (embeddings \<lparr>embeddings = [[39, 1], [39, 1]]\<rparr>) = length [''a'', ''b'']
   \<and> predicts_rowwise (model toy_reranker) toy_score
   \<and> validate_rerank rerank_xyz
       = Inr \<lparr>query = ''q'', candidates = [''x'', ''y'', ''z''],
              RerankRequest.batch_size = Some 32\<rparr>
   \<and> fst (post_rerank toy_reranker rerank_xyz) = Ok200 \<lparr>scores = [2, 2, 2]\<rparr>
   \<and> length (scores \<lparr>scores = [2, 2, 2]\<rparr>) = length [''x'', ''y'', ''z'']"
proof -
  have e: "encodes_rowwise (model toy_instructor) toy_row"
    by (simp add: toy_instructor_def toy_encoder_rowwise)
  have r: "predicts_rowwise (model toy_reranker) toy_score"
    by (simp add: toy_reranker_def toy_predictor_rowwise)
  from response_length_and_order
    [of toy_instructor toy_row embed_ab
        "\<lparr>instruction = ''Represent the document for retrieval: '',
          texts = [''a'', ''b''], normalize = True, EmbedRequest.batch_size = Some 32\<rparr>"
        "\<lparr>embeddings = [[39, 1], [39, 1]]\<rparr>"
        toy_reranker toy_score rerank_xyz
        "\<lparr>query = ''q'', candidates = [''x'', ''y'', ''z''],
          RerankRequest.batch_size = Some 32\<rparr>"
        "\<lparr>scores = [2, 2, 2]\<rparr>"]
    e r validate_embed_ab post_embed_ab validate_rerank_xyz post_rerank_xyz
  show ?thesis by simp
qed

lemma validate_embed_batch_size_only:
  assumes "validate_embed (b\<lparr>eb_batch_size := x\<rparr>) = Inr r2" and "validate_embed b = Inr r1"
  shows "texts r2 = texts r1 \<and> instruction r2 = instruction r1 \<and> normalize r2 = normalize r1"
  using assms by (auto simp: validate_embed_cases)

lemma validate_rerank_batch_size_only:
  assumes "validate_rerank (c\<lparr>rb_batch_size := x\<rparr>) = Inr r2" and "validate_rerank c = Inr r1"
  shows "candidates r2 = candidates r1 \<and> query r2 = query r1"
  using assms by (auto simp: validate_rerank_cases)

lemma post_embed_ok_valid:
  assumes "fst (post_embed p b) = Ok200 resp"
  obtains req where "validate_embed b = Inr req"
  using assms by (cases "validate_embed b") (auto simp: post_embed_def)

lemma post_rerank_ok_valid:
  assumes "fst (post_rerank q c) = Ok200 resp"
  obtains req where "validate_rerank c = Inr req"
  using assms by (cases "validate_rerank c") (auto simp: post_rerank_def)

text \<open>
  Claim C7. With a model that returns one row per input, each of the model's fixed
  dimension, two embed bodies that differ only in \<open>batch_size\<close> and are both answered with a
  response get the same number of embeddings and the same dimension at every position; two
  rerank bodies that differ only in \<open>batch_size\<close> get the same number of scores.
\<close>

theorem shape_independent_of_batch_size:
  "(encodes_rowwise (model p) g \<and> fixed_dimension g d \<and> model p' = model p
      \<and> fst (post_embed p b) = Ok200 r1
      \<and> fst (post_embed p' (b\<lparr>eb_batch_size := x\<rparr>)) = Ok200 r2 \<longrightarrow>
        length (embeddings r1) = length (embeddings r2)
      \<and> map length (embeddings r1) = map length (embeddings r2))
   \<and> (predicts_rowwise (model q) h \<and> model q' = model q
      \<and> fst (post_rerank q c) = Ok200 s1
      \<and> fst (post_rerank q' (c\<lparr>rb_batch_size := y\<rparr>)) = Ok200 s2 \<longrightarrow>
        length (scores s1) = length (scores s2))"
proof (intro conjI impI)
  assume a: "encodes_rowwise (model p) g \<and> fixed_dimension g d \<and> model p' = model p
      \<and> fst (post_embed p b) = Ok200 r1
      \<and> fst (post_embed p' (b\<lparr>eb_batch_size := x\<rparr>)) = Ok200 r2"
  then obtain q1 q2 where v1: "validate_embed b = Inr q1"
    and v2: "validate_embed (b\<lparr>eb_batch_size := x\<rparr>) = Inr q2"
    by (meson post_embed_ok_valid)
  from a have rw': "encodes_rowwise (model p') g" by simp
  have e1: "embeddings r1
      = map (\<lambda>t. g (normalize q1) (EmbedRequest.batch_size q1) [instruction q1, t]) (texts q1)"
    using a embed_rowwise_rows [OF _ v1, of p g r1] by simp
  have e2: "embeddings r2
      = map (\<lambda>t. g (normalize q2) (EmbedRequest.batch_size q2) [instruction q2, t]) (texts q2)"
    using a embed_rowwise_rows [OF rw' v2, of r2] by simp
  have t: "texts q2 = texts q1"
    using validate_embed_batch_size_only [OF v2 v1] by simp
  have dim: "\<And>n s u. length (g n s u) = d"
    using a by (simp add: fixed_dimension_def)
  show "length (embeddings r1) = length (embeddings r2)"
    by (simp add: e1 e2 t)
  show "map length (embeddings r1) = map length (embeddings r2)"
    by (simp add: e1 e2 t comp_def dim)
next
  assume a: "predicts_rowwise (model q) h \<and> model q' = model q
      \<and> fst (post_rerank q c) = Ok200 s1
      \<and> fst (post_rerank q' (c\<lparr>rb_batch_size := y\<rparr>)) = Ok200 s2"
  then obtain q1 q2 where v1: "validate_rerank c = Inr q1"
    and v2: "validate_rerank (c\<lparr>rb_batch_size := y\<rparr>) = Inr q2"
    by (meson post_rerank_ok_valid)
  from a have rw': "predicts_rowwise (model q') h" by simp
  have e1: "scores s1
      = map (\<lambda>c. h (RerankRequest.batch_size q1) (query q1, c)) (candidates q1)"
    using a rerank_rowwise_scores [OF _ v1, of q h s1] by simp
  have e2: "scores s2
      = map (\<lambda>c. h (RerankRequest.batch_size q2) (query q2, c)) (candidates q2)"
    using a rerank_rowwise_scores [OF rw' v2, of s2] by simp
  have t: "candidates q2 = candidates q1"
    using validate_rerank_batch_size_only [OF v2 v1] by simp
  show "length (scores s1) = length (scores s2)"
    by (simp add: e1 e2 t)
qed

lemma post_embed_ab_batch1:
  "fst (post_embed toy_instructor (embed_ab\<lparr>eb_batch_size := Val 1\<rparr>))
     = Ok200 \<lparr>embeddings = [[39, 1], [39, 1]]\<rparr>"
  by (simp add: post_embed_def validate_embed_def with_default_def required_def
      optional_ge_def embed_ab_def fst_embed toy_instructor_def toy_encoder_def toy_row_def)

lemma post_rerank_xyz_batch1:
  "fst (post_rerank toy_reranker (rerank_xyz\<lparr>rb_batch_size := Val 1\<rparr>))
     = Ok200 \<lparr>scores = [2, 2, 2]\<rparr>"
  by (simp add: post_rerank_def validate_rerank_def required_def optional_ge_def
      rerank_xyz_def fst_rerank toy_reranker_def toy_predictor_def toy_score_def)

theorem shape_independent_of_batch_size_witness:
  "encodes_rowwise (model toy_instructor) toy_row \<and> fixed_dimension toy_row 2
   \<and> fst (post_embed toy_instructor embed_ab) = Ok200 \<lparr>embeddings = [[39, 1], [39, 1]]\<rparr>
   \<and> fst (post_embed toy_instructor (embed_ab\<lparr>eb_batch_size := Val 1\<rparr>))
       = Ok200 \<lparr>embeddings = [[39, 1], [39, 1]]\<rparr>
   \<and> map length (embeddings \<lparr>embeddings = [[39, 1], [39, 1]]\<rparr>)
       = map length (embeddings \<lparr>embeddings = [[39, 1], [39, 1]]\<rparr>)
   \<and> predicts_rowwise (model toy_reranker) toy_score
   \<and> fst (post_rerank toy_reranker rerank_xyz) = Ok200 \<lparr>scores = [2, 2, 2]\<rparr>
   \<and> fst (post_rerank toy_reranker (rerank_xyz\<lparr>rb_batch_size := Val 1\<rparr>))
       = Ok200 \<lparr>scores = [2, 2, 2]\<rparr>
   \<and> length (scores \<lparr>scores = [2, 2, 2]\<rparr>) = length (scores \<lparr>scores = [2, 2, 2]\<rparr>)"
proof -
  have e: "encodes_rowwise (model toy_instructor) toy_row"
    by (simp add: toy_instructor_def toy_encoder_rowwise)
  have r: "predicts_rowwise (model toy_reranker) toy_score"
    by (simp add: toy_reranker_def toy_predictor_rowwise)
  from shape_independent_of_batch_size
    [of toy_instructor toy_row 2 toy_instructor embed_ab
        "\<lparr>embeddings = [[39, 1], [39, 1]]\<rparr>" "Val 1" "\<lparr>embeddings = [[39, 1], [39, 1]]\<rparr>"
        toy_reranker toy_score toy_reranker rerank_xyz
        "\<lparr>scores = [2, 2, 2]\<rparr>" "Val 1" "\<lparr>scores = [2, 2, 2]\<rparr>"]
    e r toy_row_dimension post_embed_ab post_embed_ab_batch1 post_rerank_xyz
    post_rerank_xyz_batch1
  show ?thesis by simp
qed



section \<open>The health endpoint\<close>

lemma run_Cons:
  "run serve p (r # rs)
     = (fst (serve p r) # fst (run serve (snd (serve p r)) rs),
        snd (run serve (snd (serve p r)) rs))"
  by (simp add: case_prod_beta)

lemma run_preserves:
  assumes "\<And>p r. d (snd (serve p r)) = d p"
  shows "d (snd (run serve p rs)) = d p"
proof (induction rs arbitrary: p)
  case Nil
  show ?case by simp
next
  case (Cons r rs)
  have "d (snd (run serve (snd (serve p r)) rs)) = d p"
    using Cons.IH [of "snd (serve p r)"] assms [of p r] by simp
  then show ?case
    by (simp add: run_Cons del: run.simps(2))
qed

lemma run_nth:
  assumes "\<And>p r. d (snd (serve p r)) = d p"
    and "\<And>p. fst (serve p h) = ans (d p)"
  shows "i < length rs \<Longrightarrow> rs ! i = h \<Longrightarrow> fst (run serve p rs) ! i = ans (d p)"
proof (induction rs arbitrary: p i)
  case Nil
  then show ?case by simp
next
  case (Cons r rs)
  show ?case
  proof (cases i)
    case 0
    with Cons.prems have "r = h" by simp
    with 0 assms(2) [of p] show ?thesis
      by (simp add: run_Cons del: run.simps(2))
  next
    case (Suc j)
    with Cons.prems have "j < length rs" "rs ! j = h" by simp_all
    then have "fst (run serve (snd (serve p r)) rs) ! j = ans (d (snd (serve p r)))"
      by (rule Cons.IH)
    with Suc assms(1) [of p r] show ?thesis
      by (simp add: run_Cons del: run.simps(2))
  qed
qed

lemma instructor_serve_device: "device (snd (instructor_serve p r)) = device p"
  by (cases r)
    (auto simp: post_embed_def embed_def Let_def split: prod.splits sum.splits option.splits)

lemma reranker_serve_device: "device (snd (reranker_serve p r)) = device p"
  by (cases r)
    (auto simp: post_rerank_def rerank_def Let_def split: prod.splits sum.splits option.splits)

lemma startup_device:
  "startup path cuda load = Some p \<Longrightarrow> device p = select_device cuda"
  by (auto simp: startup_def Let_def split: option.splits)


text \<open>
  Claim C6. On either service, once the model has loaded, every health request in any
  sequence of requests is answered with status \<open>ok\<close> and the device chosen at startup
  (\<open>cuda\<close> when available, else \<open>cpu\<close>); no embed or rerank request changes the device of
  the process.
\<close>

theorem healthz_constant:
  "(instructor_startup cuda load = Some p0 \<longrightarrow>
      device (snd (run instructor_serve p0 rqs)) = select_device cuda
    \<and> (\<forall>i<length rqs. rqs ! i = GetHealthzI \<longrightarrow>
          fst (run instructor_serve p0 rqs) ! i
            = HealthI [(''status'', ''ok''), (''device'', select_device cuda)]))
   \<and> (reranker_startup cuda' load' = Some q0 \<longrightarrow>
      device (snd (run reranker_serve q0 rrs)) = select_device cuda'
    \<and> (\<forall>i<length rrs. rrs ! i = GetHealthzR \<longrightarrow>
          fst (run reranker_serve q0 rrs) ! i
            = HealthR [(''status'', ''ok''), (''device'', select_device cuda')]))"
proof (intro conjI impI allI)
  assume "instructor_startup cuda load = Some p0"
  then have d: "device p0 = select_device cuda"
    unfolding instructor_startup_def by (rule startup_device)
  show "device (snd (run instructor_serve p0 rqs)) = select_device cuda"
    using run_preserves [of device instructor_serve p0 rqs] instructor_serve_device d
    by simp
  fix i
  assume "i < length rqs" "rqs ! i = GetHealthzI"
  then have "fst (run instructor_serve p0 rqs) ! i
               = (\<lambda>dv. HealthI [(''status'', ''ok''), (''device'', dv)]) (device p0)"
    by (intro run_nth [where d = device and h = GetHealthzI])
      (simp_all add: instructor_serve_device healthz_def)
  then show "fst (run instructor_serve p0 rqs) ! i
               = HealthI [(''status'', ''ok''), (''device'', select_device cuda)]"
    by (simp add: d)
next
  assume "reranker_startup cuda' load' = Some q0"
  then have d: "device q0 = select_device cuda'"
    unfolding reranker_startup_def by (rule startup_device)
  show "device (snd (run reranker_serve q0 rrs)) = select_device cuda'"
    using run_preserves [of device reranker_serve q0 rrs] reranker_serve_device d
    by simp
  fix i
  assume "i < length rrs" "rrs ! i = GetHealthzR"
  then have "fst (run reranker_serve q0 rrs) ! i
               = (\<lambda>dv. HealthR [(''status'', ''ok''), (''device'', dv)]) (device q0)"
    by (intro run_nth [where d = device and h = GetHealthzR])
      (simp_all add: reranker_serve_device healthz_def)
  then show "fst (run reranker_serve q0 rrs) ! i
               = HealthR [(''status'', ''ok''), (''device'', select_device cuda')]"
    by (simp add: d)
qed

theorem healthz_constant_witness:
  "instructor_startup False (\<lambda>path dev. Some toy_encoder) = Some toy_instructor
   \<and> fst (run instructor_serve toy_instructor [GetHealthzI, PostEmbed embed_ab, GetHealthzI]) ! 2
       = HealthI [(''status'', ''ok''), (''device'', ''cpu'')]
   \<and> reranker_startup False (\<lambda>path dev. Some toy_predictor) = Some toy_reranker
   \<and> fst (run reranker_serve toy_reranker [GetHealthzR, PostRerank rerank_xyz, GetHealthzR]) ! 2
       = HealthR [(''status'', ''ok''), (''device'', ''cpu'')]"
proof -
  let ?rqs = "[GetHealthzI, PostEmbed embed_ab, GetHealthzI]"
  let ?rrs = "[GetHealthzR, PostRerank rerank_xyz, GetHealthzR]"
  have si: "instructor_startup False (\<lambda>path dev. Some toy_encoder) = Some toy_instructor"
    by (simp add: instructor_startup_def startup_def select_device_def toy_instructor_def)
  have sr: "reranker_startup False (\<lambda>path dev. Some toy_predictor) = Some toy_reranker"
    by (simp add: reranker_startup_def startup_def select_device_def toy_reranker_def)
  have i: "2 < length ?rqs \<and> ?rqs ! 2 = GetHealthzI"
    by simp
  have r: "2 < length ?rrs \<and> ?rrs ! 2 = GetHealthzR"
    by simp
  from healthz_constant
    [of False "\<lambda>path dev. Some toy_encoder" toy_instructor ?rqs
        False "\<lambda>path dev. Some toy_predictor" toy_reranker ?rrs] si sr
  have "\<forall>i<length ?rqs. ?rqs ! i = GetHealthzI \<longrightarrow>
          fst (run instructor_serve toy_instructor ?rqs) ! i
            = HealthI [(''status'', ''ok''), (''device'', select_device False)]"
    and "\<forall>i<length ?rrs. ?rrs ! i = GetHealthzR \<longrightarrow>
          fst (run reranker_serve toy_reranker ?rrs) ! i
            = HealthR [(''status'', ''ok''), (''device'', select_device False)]"
    by blast+
  with i r have "fst (run instructor_serve toy_instructor ?rqs) ! 2
            = HealthI [(''status'', ''ok''), (''device'', select_device False)]"
    and "fst (run reranker_serve toy_reranker ?rrs) ! 2
            = HealthR [(''status'', ''ok''), (''device'', select_device False)]"
    by blast+
  then show ?thesis
    using si sr by (simp add: select_device_def)
qed

end
